theory Spec2Isabelle
  imports Complex_Main
begin

section \<open>Text: code units, character classes, string helpers\<close>

text \<open>
  A JavaScript string is modelled as a \<open>string\<close>; one \<open>char\<close> is one code unit
  below 256 (ASCII and Latin-1). The character classes below are the ECMAScript ones
  cut down to that range: line terminators are LF and CR, white space (\<open>\s\<close>, also
  what \<open>trim\<close> strips) is TAB, LF, VT, FF, CR, SPACE and NBSP, and a word character
  (\<open>\w\<close>) is an ASCII letter, digit or underscore. \<open>toUpperCase\<close> is modelled on the
  ASCII letters; code units from 128 on are left as they are, so the embedding is exact
  on texts of ASCII code units, the alphabet of every keyword and pattern of the
  validator.
\<close>

definition is_line_terminator :: "char \<Rightarrow> bool" where
  "is_line_terminator c \<longleftrightarrow> c = CHR 0x0A \<or> c = CHR 0x0D"

definition is_space :: "char \<Rightarrow> bool" where
  "is_space c \<longleftrightarrow>
     c = CHR 0x09 \<or> c = CHR 0x0A \<or> c = CHR 0x0B \<or> c = CHR 0x0C \<or> c = CHR 0x0D
     \<or> c = CHR '' '' \<or> c = CHR 0xA0"

definition is_word :: "char \<Rightarrow> bool" where
  "is_word c \<longleftrightarrow>
     (let n = (of_char c :: nat)
      in (65 \<le> n \<and> n \<le> 90) \<or> (97 \<le> n \<and> n \<le> 122) \<or> (48 \<le> n \<and> n \<le> 57) \<or> n = 95)"

definition not_newline :: "char \<Rightarrow> bool" where
  \<comment> \<open>the regular expression atom \<open>.\<close> without the \<open>s\<close> flag\<close>
  "not_newline c \<longleftrightarrow> \<not> is_line_terminator c"

definition upper_char :: "char \<Rightarrow> char" where
  "upper_char c =
     (let n = (of_char c :: nat) in if 97 \<le> n \<and> n \<le> 122 then char_of (n - 32) else c)"

definition toUpperCase :: "string \<Rightarrow> string" where
  "toUpperCase s = map upper_char s"

definition trim :: "string \<Rightarrow> string" where
  "trim s = rev (dropWhile is_space (rev (dropWhile is_space s)))"

definition startsWith :: "string \<Rightarrow> string \<Rightarrow> bool" where
  "startsWith s k \<longleftrightarrow> take (length k) s = k"

fun js_includes :: "string \<Rightarrow> string \<Rightarrow> bool" where
  "js_includes [] k = (k = [])"
| "js_includes (c # cs) k = (startsWith (c # cs) k \<or> js_includes cs k)"

definition first_split :: "string \<Rightarrow> string" where
  \<comment> \<open>\<open>s.split(' ')[0]\<close>: the text before the first space (all of \<open>s\<close> without one)\<close>
  "first_split s = takeWhile (\<lambda>c. c \<noteq> CHR '' '') s"

fun join :: "string \<Rightarrow> string list \<Rightarrow> string" where
  "join sep [] = []"
| "join sep [x] = x"
| "join sep (x # y # ys) = x @ sep @ join sep (y # ys)"

section \<open>Regular expressions of the validator\<close>

text \<open>
  The patterns of the validator use literals, character classes, \<open>*\<close>, \<open>+\<close> and \<open>?\<close>
  on a single character class, sequence, alternation and the word boundary \<open>\b\<close>,
  all under the \<open>i\<close> flag. \<open>RegExp.test\<close> asks whether some match exists anywhere,
  which does not depend on greedy or lazy choice, so a match is computed as the list
  of positions where it can end. A position is the code unit before it (for \<open>\b\<close>)
  and the text after it.
\<close>

datatype rx =
    Lit string
  | Cls "char \<Rightarrow> bool"
  | Star "char \<Rightarrow> bool"
  | Plus "char \<Rightarrow> bool"
  | Opt "char \<Rightarrow> bool"
  | WordB
  | Seq rx rx
  | Alt rx rx

type_synonym pos = "char option \<times> string"

definition ci_eq :: "char \<Rightarrow> char \<Rightarrow> bool" where
  \<comment> \<open>equality of canonicalised code units under the \<open>i\<close> flag\<close>
  "ci_eq a b \<longleftrightarrow> upper_char a = upper_char b"

fun lit_ends :: "string \<Rightarrow> char option \<Rightarrow> string \<Rightarrow> pos list" where
  "lit_ends [] p s = [(p, s)]"
| "lit_ends (k # ks) p [] = []"
| "lit_ends (k # ks) p (c # cs) = (if ci_eq k c then lit_ends ks (Some c) cs else [])"

fun star_ends :: "(char \<Rightarrow> bool) \<Rightarrow> char option \<Rightarrow> string \<Rightarrow> pos list" where
  "star_ends f p [] = [(p, [])]"
| "star_ends f p (c # cs) = (p, c # cs) # (if f c then star_ends f (Some c) cs else [])"

definition word_before :: "char option \<Rightarrow> bool" where
  "word_before p = (case p of None \<Rightarrow> False | Some c \<Rightarrow> is_word c)"

definition word_after :: "string \<Rightarrow> bool" where
  "word_after s = (case s of [] \<Rightarrow> False | c # _ \<Rightarrow> is_word c)"

fun rx_ends :: "rx \<Rightarrow> pos \<Rightarrow> pos list" where
  "rx_ends (Lit k) (p, s) = lit_ends k p s"
| "rx_ends (Cls f) (p, s) = (case s of [] \<Rightarrow> [] | c # cs \<Rightarrow> if f c then [(Some c, cs)] else [])"
| "rx_ends (Star f) (p, s) = star_ends f p s"
| "rx_ends (Plus f) (p, s) =
     (case s of [] \<Rightarrow> [] | c # cs \<Rightarrow> if f c then star_ends f (Some c) cs else [])"
| "rx_ends (Opt f) (p, s) =
     (p, s) # (case s of [] \<Rightarrow> [] | c # cs \<Rightarrow> if f c then [(Some c, cs)] else [])"
| "rx_ends WordB (p, s) = (if word_before p \<noteq> word_after s then [(p, s)] else [])"
| "rx_ends (Seq a b) st = concat (map (rx_ends b) (rx_ends a st))"
| "rx_ends (Alt a b) st = rx_ends a st @ rx_ends b st"

fun rx_search :: "rx \<Rightarrow> char option \<Rightarrow> string \<Rightarrow> bool" where
  "rx_search r p [] = (rx_ends r (p, []) \<noteq> [])"
| "rx_search r p (c # cs) = (rx_ends r (p, c # cs) \<noteq> [] \<or> rx_search r (Some c) cs)"

definition rx_test :: "rx \<Rightarrow> string \<Rightarrow> bool" where
  \<comment> \<open>\<open>pattern.test(s)\<close> for a pattern without the \<open>g\<close> or \<open>y\<close> flag\<close>
  "rx_test r s = rx_search r None s"

fun seqs :: "rx list \<Rightarrow> rx" where
  "seqs [] = Lit []"
| "seqs [r] = r"
| "seqs (r # rs) = Seq r (seqs rs)"

fun alts :: "string list \<Rightarrow> rx" where
  "alts [] = Cls (\<lambda>_. False)"
| "alts [k] = Lit k"
| "alts (k # ks) = Alt (Lit k) (alts ks)"

section \<open>The query validator\<close>

record ValidationResult =
  valid :: bool
  reason :: "string option"
  queryType :: "string option"

definition BLOCKED_KEYWORDS :: "string list" where
  "BLOCKED_KEYWORDS =
     [''INSERT'', ''UPDATE'', ''DELETE'', ''DROP'', ''ALTER'', ''CREATE'', ''TRUNCATE'',
      ''EXEC'', ''EXECUTE'', ''MERGE'', ''GRANT'', ''REVOKE'', ''DENY'', ''BACKUP'',
      ''RESTORE'', ''BULK'', ''OPENROWSET'', ''OPENDATASOURCE'', ''XP_'', ''SP_CONFIGURE'',
      ''SP_ADDLOGIN'', ''SP_DROPLOGIN'', ''DBCC'', ''SHUTDOWN'', ''KILL'']"

definition ALLOWED_START_KEYWORDS :: "string list" where
  "ALLOWED_START_KEYWORDS = [''SELECT'', ''WITH'', ''SET SHOWPLAN'']"

text \<open>\<open>query.replace(/--.*$/gm, '')\<close>: from each \<open>--\<close> up to the next line terminator
  (or the end), which stays.\<close>

function remove_line_comments :: "string \<Rightarrow> string" where
  "remove_line_comments (a # b # cs) =
     (if a = CHR ''-'' \<and> b = CHR ''-''
      then remove_line_comments (dropWhile not_newline cs)
      else a # remove_line_comments (b # cs))"
| "remove_line_comments [c] = [c]"
| "remove_line_comments [] = []"
  by pat_completeness auto
termination
  by (relation "measure length") (auto simp: less_Suc_eq_le intro: le_SucI length_dropWhile_le)

text \<open>\<open>result.replace(/\/\*[\s\S]*?\*\//g, '')\<close>: from each \<open>/*\<close> through the first
  \<open>*/\<close> after it; a \<open>/*\<close> that is never closed stays.\<close>

fun after_close :: "string \<Rightarrow> string option" where
  "after_close (a # b # cs) =
     (if a = CHR ''*'' \<and> b = CHR ''/'' then Some cs else after_close (b # cs))"
| "after_close cs = None"

lemma after_close_shorter: "after_close cs = Some r \<Longrightarrow> length r < length cs"
  by (induction cs rule: after_close.induct) (auto split: if_splits)

function remove_block_comments :: "string \<Rightarrow> string" where
  "remove_block_comments (a # b # cs) =
     (if a = CHR ''/'' \<and> b = CHR ''*''
      then (case after_close cs of
              Some r \<Rightarrow> remove_block_comments r
            | None \<Rightarrow> a # remove_block_comments (b # cs))
      else a # remove_block_comments (b # cs))"
| "remove_block_comments [c] = [c]"
| "remove_block_comments [] = []"
  by pat_completeness auto
termination
  by (relation "measure length") (auto dest: after_close_shorter)

definition removeComments :: "string \<Rightarrow> string" where
  "removeComments query = remove_block_comments (remove_line_comments query)"

text \<open>\<open>.replace(/\s+/g, ' ')\<close>\<close>

function collapse_ws :: "string \<Rightarrow> string" where
  "collapse_ws [] = []"
| "collapse_ws (c # cs) =
     (if is_space c then CHR '' '' # collapse_ws (dropWhile is_space cs)
      else c # collapse_ws cs)"
  by pat_completeness auto
termination
  by (relation "measure length") (auto simp: less_Suc_eq_le length_dropWhile_le)

definition normalizeQuery :: "string \<Rightarrow> string" where
  "normalizeQuery query = toUpperCase (trim (collapse_ws (removeComments query)))"

definition startsWithAllowed :: "string \<Rightarrow> bool" where
  "startsWithAllowed normalizedQuery =
     list_ex (\<lambda>keyword. startsWith normalizedQuery keyword) ALLOWED_START_KEYWORDS"

definition keyword_rx :: "string \<Rightarrow> rx" where
  \<comment> \<open>the pattern made of a word boundary, the keyword and a word boundary, flag \<open>i\<close>;
      no keyword holds a pattern metacharacter\<close>
  "keyword_rx keyword = seqs [WordB, Lit keyword, WordB]"

definition findBlockedKeyword :: "string \<Rightarrow> string option" where
  "findBlockedKeyword normalizedQuery =
     find (\<lambda>keyword. rx_test (keyword_rx keyword) normalizedQuery) BLOCKED_KEYWORDS"

definition hash_or_at :: "char \<Rightarrow> bool" where
  "hash_or_at c \<longleftrightarrow> c = CHR ''#'' \<or> c = CHR ''@''"

text \<open>The five patterns of \<open>findBypassPattern\<close>, in the order of the source:
  \<^item> \<^verbatim>\<open>/;\s*(INSERT|UPDATE|DELETE|DROP|ALTER|CREATE|TRUNCATE|EXEC)/i\<close>
  \<^item> \<^verbatim>\<open>/\bINTO\s+[#@]?\w+\s*\(/i\<close>
  \<^item> \<^verbatim>\<open>/\bSELECT\b.*\bINTO\s+[#@]?\w+/i\<close>
  \<^item> \<^verbatim>\<open>/\bFOR\s+(UPDATE|DELETE)\b/i\<close>
  \<^item> \<^verbatim>\<open>/\bOPENQUERY\s*\(/i\<close>
\<close>

definition stacked_rx :: rx where
  "stacked_rx =
     seqs [Lit '';'', Star is_space,
           alts [''INSERT'', ''UPDATE'', ''DELETE'', ''DROP'', ''ALTER'', ''CREATE'',
                 ''TRUNCATE'', ''EXEC'']]"

definition into_paren_rx :: rx where
  "into_paren_rx =
     seqs [WordB, Lit ''INTO'', Plus is_space, Opt hash_or_at, Plus is_word,
           Star is_space, Lit ''('']"

definition select_into_rx :: rx where
  "select_into_rx =
     seqs [WordB, Lit ''SELECT'', WordB, Star not_newline, WordB, Lit ''INTO'',
           Plus is_space, Opt hash_or_at, Plus is_word]"

definition for_update_rx :: rx where
  "for_update_rx =
     seqs [WordB, Lit ''FOR'', Plus is_space, alts [''UPDATE'', ''DELETE''], WordB]"

definition openquery_rx :: rx where
  "openquery_rx = seqs [WordB, Lit ''OPENQUERY'', Star is_space, Lit ''('']"

definition bypass_patterns :: "(rx \<times> string) list" where
  "bypass_patterns =
     [(stacked_rx, ''Stacked query with write operation''),
      (into_paren_rx, ''SELECT INTO creates tables''),
      (select_into_rx, ''SELECT INTO creates tables''),
      (for_update_rx, ''FOR UPDATE/DELETE is not allowed''),
      (openquery_rx, ''OPENQUERY is not allowed'')]"

definition findBypassPattern :: "string \<Rightarrow> string option" where
  "findBypassPattern query =
     map_option snd (find (\<lambda>(pattern, description). rx_test pattern query) bypass_patterns)"

definition truthy :: "string option \<Rightarrow> bool" where
  \<comment> \<open>\<open>if (x)\<close> on a \<open>string | null\<close>: null and the empty string are falsy\<close>
  "truthy x = (case x of None \<Rightarrow> False | Some s \<Rightarrow> s \<noteq> [])"

definition validateQuery :: "string \<Rightarrow> ValidationResult" where
  "validateQuery query =
     (let normalized = normalizeQuery query in
      if normalized = [] then
        \<lparr>valid = False, reason = Some ''Query is empty'', queryType = Some ''EMPTY''\<rparr>
      else if \<not> startsWithAllowed normalized then
        (let firstWord = first_split normalized in
         \<lparr>valid = False,
          reason = Some (''Query must start with SELECT or WITH (CTE). Found: '' @ firstWord),
          queryType = Some firstWord\<rparr>)
      else
        (let blockedKeyword = findBlockedKeyword normalized in
         if truthy blockedKeyword then
           \<lparr>valid = False,
            reason = Some (''Keyword '' @ [CHR 0x22] @ the blockedKeyword @ [CHR 0x22]
                           @ '' is not allowed in READONLY mode''),
            queryType = blockedKeyword\<rparr>
         else
           (let bypassPattern = findBypassPattern query in
            if truthy bypassPattern then
              \<lparr>valid = False,
               reason = Some (''Query contains blocked pattern: '' @ the bypassPattern),
               queryType = Some ''BLOCKED_PATTERN''\<rparr>
            else \<lparr>valid = True, reason = None, queryType = Some ''SELECT''\<rparr>)))"

definition getQueryType :: "string \<Rightarrow> string" where
  "getQueryType query =
     (let normalized = normalizeQuery query;
          firstWord = first_split normalized
      in if startsWith normalized ''WITH'' then ''CTE''
         else if startsWith normalized ''SET SHOWPLAN'' then ''SHOWPLAN''
         else firstWord)"

section \<open>Errors\<close>

text \<open>
  What a JavaScript \<open>throw\<close> can carry: an instance of one of the \<open>McpError\<close>
  classes of \<open>errors.ts\<close>, a plain \<open>Error\<close> (what the database driver raises), or a
  value that is no \<open>Error\<close> at all. \<open>message\<close> is the text each constructor stores.
\<close>

datatype thrown =
    McpError string string
  | QueryValidationError string "string option"
  | ReadOnlyViolationError string
  | ConnectionError string
  | TimeoutError int
  | MissingParameterError string
  | InvalidOperationError string
  | Error string
  | NotAnError

function digits :: "nat \<Rightarrow> string" where
  "digits n = (if n < 10 then [char_of (48 + n)] else digits (n div 10) @ [char_of (48 + n mod 10)])"
  by pat_completeness auto
termination
  by (relation "measure id") auto

definition show_int :: "int \<Rightarrow> string" where
  "show_int i = (if i < 0 then CHR ''-'' # digits (nat (- i)) else digits (nat i))"

fun is_McpError :: "thrown \<Rightarrow> bool" where
  "is_McpError (Error m) = False"
| "is_McpError NotAnError = False"
| "is_McpError e = True"

fun is_Error :: "thrown \<Rightarrow> bool" where
  "is_Error NotAnError = False"
| "is_Error e = True"

fun message :: "thrown \<Rightarrow> string" where
  "message (McpError m code) = m"
| "message (QueryValidationError m qt) = m"
| "message (ReadOnlyViolationError blockedKeyword) =
     ''Operation blocked in READONLY mode: '' @ [CHR 0x22] @ blockedKeyword @ [CHR 0x22]
     @ '' is not allowed. '' @ ''Only SELECT queries are permitted.''"
| "message (ConnectionError m) = m"
| "message (TimeoutError timeoutMs) =
     ''Query timed out after '' @ show_int timeoutMs
     @ ''ms. Consider optimizing your query or increasing the timeout.''"
| "message (MissingParameterError parameterName) =
     ''Required parameter '' @ [CHR 0x22] @ parameterName @ [CHR 0x22] @ '' is missing''"
| "message (InvalidOperationError m) = m"
| "message (Error m) = m"
| "message NotAnError = []"

text \<open>
  \<^verbatim>\<open>.replace(/Login failed for user '[^']*'/, "Login failed for user '***'")\<close>:
  no \<open>g\<close> flag, so only the leftmost match is replaced; the match needs the closing
  quote.
\<close>

fun after_quote :: "string \<Rightarrow> string option" where
  "after_quote [] = None"
| "after_quote (c # cs) = (if c = CHR 0x27 then Some cs else after_quote cs)"

definition login_prefix :: string where
  \<comment> \<open>\<^verbatim>\<open>Login failed for user '\<close>, with the opening quote\<close>
  "login_prefix = ''Login failed for user '' @ [CHR 0x27]"

fun redact_login :: "string \<Rightarrow> string" where
  "redact_login [] = []"
| "redact_login (c # cs) =
     (if startsWith (c # cs) login_prefix then
        (case after_quote (drop (length login_prefix) (c # cs)) of
           Some rest \<Rightarrow> login_prefix @ ''***'' @ [CHR 0x27] @ rest
         | None \<Rightarrow> c # redact_login cs)
      else c # redact_login cs)"

text \<open>
  \<^verbatim>\<open>.replace(/password[^,]*/gi, 'password=***')\<close>: every match, left to right;
  a match runs from the word (in any case) up to the next comma or the end. The word
  holds no comma, so the text after the match is what \<open>dropWhile\<close> leaves of the text
  from the start of the match.
\<close>

definition startsWith_ci :: "string \<Rightarrow> string \<Rightarrow> bool" where
  "startsWith_ci s k \<longleftrightarrow> map upper_char (take (length k) s) = map upper_char k"

lemma upper_char_comma: "upper_char (CHR '','') \<noteq> upper_char (CHR ''p'')"
  by code_simp

lemma startsWith_ci_password_not_comma:
  "startsWith_ci (c # cs) ''password'' \<Longrightarrow> c \<noteq> CHR '',''"
  using upper_char_comma by (auto simp: startsWith_ci_def)

function redact_password :: "string \<Rightarrow> string" where
  "redact_password [] = []"
| "redact_password (c # cs) =
     (if startsWith_ci (c # cs) ''password''
      then ''password=***'' @ redact_password (dropWhile (\<lambda>x. x \<noteq> CHR '','') (c # cs))
      else c # redact_password cs)"
  by pat_completeness auto
termination
proof (relation "measure length")
  show "wf (measure length)" by simp
next
  fix c :: char and cs :: string
  assume a: "startsWith_ci (c # cs) ''password''"
  have "c \<noteq> CHR '',''"
    using a by (rule startsWith_ci_password_not_comma)
  then have "length (dropWhile (\<lambda>x. x \<noteq> CHR '','') (c # cs)) \<le> length cs"
    by (simp add: length_dropWhile_le)
  then show "(dropWhile (\<lambda>x. x \<noteq> CHR '','') (c # cs), c # cs) \<in> measure length"
    by simp
next
  fix c :: char and cs :: string
  show "(cs, c # cs) \<in> measure length" by simp
qed


definition getErrorMessage :: "thrown \<Rightarrow> string" where
  "getErrorMessage error =
     (if is_McpError error then message error
      else if is_Error error then redact_password (redact_login (message error))
      else ''An unknown error occurred'')"

section \<open>Parameter values and the parameter binder\<close>

text \<open>
  A JavaScript number is a finite double, given by its exact rational value, or one of
  \<open>NaN\<close>, \<open>Infinity\<close>, \<open>-Infinity\<close>. The static type \<open>SqlParamValue\<close> is
  \<open>string | number | boolean | null\<close>; \<open>JUndefined\<close> and \<open>JObject\<close> stand for the values
  outside that union, which the type checker rules out and the run time does not.
\<close>

datatype js_number = Finite rat | NaN | PosInfinity | NegInfinity

datatype js_value =
    JNull
  | JString string
  | JNumber js_number
  | JBoolean bool
  | JUndefined
  | JObject

datatype sql_type = NVarChar | BigInt | Float | Bit

fun Number_isInteger :: "js_number \<Rightarrow> bool" where
  "Number_isInteger (Finite r) = (of_int \<lfloor>r\<rfloor> = r)"
| "Number_isInteger n = False"

fun getSqlType :: "js_value \<Rightarrow> sql_type" where
  "getSqlType JNull = NVarChar"
| "getSqlType (JString s) = NVarChar"
| "getSqlType (JNumber n) = (if Number_isInteger n then BigInt else Float)"
| "getSqlType (JBoolean b) = Bit"
| "getSqlType v = NVarChar"

section \<open>The execution pipeline\<close>

text \<open>
  The collaborators are explicit. \<open>config\<close> holds the policy flag. A \<open>driver\<close> gives
  the outcome of each call into the database driver: \<open>getPool\<close>, \<open>request.input\<close>
  (\<open>None\<close> when it returns) and \<open>request.query\<close>. Every call that leaves the
  pipeline is appended to a trace of events, so that "no call was made" is a statement
  about the trace. The two readings of \<open>Date.now()\<close>, at the start and after the driver
  returned or failed, are the pair \<open>clock\<close>.
\<close>

record config =
  READONLY :: bool

type_synonym row = "(string \<times> js_value) list"

record recordset =
  rows_of :: "row list"
  columns :: "(string \<times> string option) list option"

record driver_result =
  result_recordset :: "recordset option"
  rowsAffected :: "int list"

type_synonym bound_param = "string \<times> sql_type \<times> js_value"

record driver =
  getPool :: "thrown + unit"
  request_input :: "string \<Rightarrow> sql_type \<Rightarrow> js_value \<Rightarrow> thrown option"
  request_query :: "string \<Rightarrow> bound_param list \<Rightarrow> thrown + driver_result"

datatype event =
    ValidateCall string
  | GetPoolCall
  | InputCall string sql_type js_value
  | QueryCall string
  | Logged string string "(string \<times> js_value) list"

type_synonym clock = "int \<times> int"



record WriteResult =
  affectedRows :: int
  write_duration :: int



fun bind_params :: "driver \<Rightarrow> (string \<times> js_value) list \<Rightarrow> event list
                    \<Rightarrow> thrown option \<times> event list" where
  "bind_params d [] tr = (None, tr)"
| "bind_params d ((name, v) # ps) tr =
     (let sqlType = getSqlType v;
          tr' = tr @ [InputCall name sqlType v]
      in case request_input d name sqlType v of
           Some e \<Rightarrow> (Some e, tr')
         | None \<Rightarrow> bind_params d ps tr')"

definition bound :: "(string \<times> js_value) list \<Rightarrow> bound_param list" where
  "bound ps = map (\<lambda>(name, v). (name, getSqlType v, v)) ps"

definition dispatch :: "driver \<Rightarrow> string \<Rightarrow> (string \<times> js_value) list \<Rightarrow> event list
                        \<Rightarrow> (thrown + driver_result) \<times> event list" where
  \<comment> \<open>the body of the \<open>try\<close> block up to \<open>await request.query(query)\<close>, the same in
      \<open>executeQuery\<close> and \<open>executeWrite\<close>\<close>
  "dispatch d query params tr =
     (let tr1 = tr @ [GetPoolCall] in
      case getPool d of
        Inl e \<Rightarrow> (Inl e, tr1)
      | Inr _ \<Rightarrow>
          (case bind_params d params tr1 of
             (Some e, tr2) \<Rightarrow> (Inl e, tr2)
           | (None, tr2) \<Rightarrow> (request_query d query (bound params), tr2 @ [QueryCall query])))"

definition num :: "int \<Rightarrow> js_value" where
  "num i = JNumber (Finite (of_int i))"



definition executeWrite :: "config \<Rightarrow> driver \<Rightarrow> clock \<Rightarrow> string \<Rightarrow> (string \<times> js_value) list
                            \<Rightarrow> event list \<Rightarrow> (thrown + WriteResult) \<times> event list" where
  "executeWrite cfg d clk query params tr =
     (if READONLY cfg then
        (Inl (ReadOnlyViolationError ''Write operations are not allowed in READONLY mode''), tr)
      else
        (let startTime = fst clk in
         case dispatch d query params tr of
           (Inr result, tr1) \<Rightarrow>
             (let dur = snd clk - startTime;
                  affected = (case rowsAffected result of [] \<Rightarrow> 0 | n # _ \<Rightarrow> n);
                  tr2 = tr1 @ [Logged ''info'' ''Write operation executed''
                                 [(''affectedRows'', num affected), (''duration'', num dur)]]
              in (Inr \<lparr>affectedRows = affected, write_duration = dur\<rparr>, tr2))
         | (Inl error, tr1) \<Rightarrow>
             (let dur = snd clk - startTime;
                  msg = getErrorMessage error;
                  tr2 = tr1 @ [Logged ''error'' ''Write operation failed''
                                 [(''error'', JString msg),
                                  (''duration'', num dur),
                                  (''query'', JString (take 200 query))]]
              in (Inl error, tr2))))"

section \<open>Statement builders\<close>

text \<open>
  A \<open>Record<string, SqlParamValue>\<close> is the list of its entries in the order
  \<open>Object.keys\<close> enumerates them.
\<close>

definition buildInsertQuery :: "string \<Rightarrow> string \<Rightarrow> (string \<times> js_value) list
                                \<Rightarrow> string \<times> (string \<times> js_value) list" where
  "buildInsertQuery schema table data =
     (let cols = map fst data;
          paramNames = map (\<lambda>col. CHR ''@'' # col) cols;
          query =
            ''\<newline>    INSERT INTO ['' @ schema @ ''].['' @ table @ ''] (['' @ join ''], ['' cols
            @ ''])\<newline>    VALUES ('' @ join '', '' paramNames
            @ '');\<newline>    SELECT SCOPE_IDENTITY() AS insertedId;\<newline>  ''
      in (query, data))"

section \<open>Driver stubs and sample data for concrete runs\<close>

definition stub_driver :: "row list \<Rightarrow> driver" where
  \<comment> \<open>a driver that connects, accepts every parameter and answers every query with the
      given rows\<close>
  "stub_driver rs =
     \<lparr>getPool = Inr (),
      request_input = (\<lambda>name ty v. None),
      request_query = (\<lambda>query ps.
         Inr \<lparr>result_recordset = Some \<lparr>rows_of = rs, columns = None\<rparr>,
              rowsAffected = [int (length rs)]\<rparr>)\<rparr>"




definition injection_value :: string where
  \<comment> \<open>the value \<^verbatim>\<open>'; DROP TABLE users; --\<close>\<close>
  "injection_value = CHR 0x27 # ''; DROP TABLE users; --''"

definition insert_fixed_text :: string where
  \<comment> \<open>the fixed pieces of the template literal of \<open>buildInsertQuery\<close> and of its two
      \<open>join\<close> separators and the \<open>@\<close> of a placeholder, put end to end\<close>
  "insert_fixed_text =
     ''\<newline>    INSERT INTO ['' @ ''].['' @ ''] (['' @ ''], [''
     @ ''])\<newline>    VALUES ('' @ '', '' @ ''@''
     @ '');\<newline>    SELECT SCOPE_IDENTITY() AS insertedId;\<newline>  ''"


section \<open>Properties of the validator\<close>

text \<open>
  C5. Word boundaries of the blocked-keyword scan: \<open>SELECT updated_at FROM users\<close> is
  valid, since \<open>UPDATE\<close> occurs there only inside the identifier \<open>updated_at\<close>, and
  \<open>SELECT 1; UPDATE users SET x=1\<close> is invalid, with the keyword \<open>UPDATE\<close> reported.
\<close>

theorem validateQuery_word_boundary:
  "valid (validateQuery ''SELECT updated_at FROM users'') \<and>
   validateQuery ''SELECT 1; UPDATE users SET x=1'' =
     \<lparr>valid = False,
      reason = Some (''Keyword '' @ [CHR 0x22] @ ''UPDATE'' @ [CHR 0x22]
                     @ '' is not allowed in READONLY mode''),
      queryType = Some ''UPDATE''\<rparr>"
  by code_simp




text \<open>
  C1 at the input \<open>SELECT a\<close>, line feed, \<open>INTO t FROM x\<close>: the verdict is valid,
  although the normalized text \<open>SELECT A INTO T FROM X\<close> matches the \<open>SELECT ... INTO\<close>
  bypass pattern. \<open>validateQuery\<close> runs \<open>findBypassPattern\<close> on the raw query, where
  the \<open>.\<close> of the pattern does not cross the line feed, and not on the normalized text
  that the two checks before it are given.
\<close>

theorem validateQuery_select_into_line_feed:
  "valid (validateQuery ''SELECT a\<newline>INTO t FROM x'') \<and>
   normalizeQuery ''SELECT a\<newline>INTO t FROM x'' = ''SELECT A INTO T FROM X'' \<and>
   findBypassPattern (normalizeQuery ''SELECT a\<newline>INTO t FROM x'')
     = Some ''SELECT INTO creates tables''"
  by code_simp

text \<open>
  C2 at the input \<open>SELECT 1 --; DELETE FROM x\<close>: the verdict is invalid, with the
  stacked-query pattern found inside the line comment of the raw query, while the
  comment-stripped text \<open>SELECT 1 \<close> is valid.
\<close>

theorem validateQuery_comment_text_scanned:
  "validateQuery ''SELECT 1 --; DELETE FROM x'' =
     \<lparr>valid = False,
      reason = Some ''Query contains blocked pattern: Stacked query with write operation'',
      queryType = Some ''BLOCKED_PATTERN''\<rparr> \<and>
   removeComments ''SELECT 1 --; DELETE FROM x'' = ''SELECT 1 '' \<and>
   valid (validateQuery (removeComments ''SELECT 1 --; DELETE FROM x''))"
  by code_simp

text \<open>What a valid verdict does guarantee, and what the verdict depends on: the first
  two checks read the normalized text, the bypass scan reads the raw query.\<close>

lemma validateQuery_valid_checks:
  "valid (validateQuery q) \<Longrightarrow>
   startsWithAllowed (normalizeQuery q) \<and> \<not> truthy (findBlockedKeyword (normalizeQuery q))
   \<and> \<not> truthy (findBypassPattern q)"
  by (auto simp: validateQuery_def Let_def split: if_splits)

lemma validateQuery_stripped_text:
  assumes "removeComments q1 = removeComments q2"
    and b: "findBypassPattern q1 = findBypassPattern q2"
  shows "validateQuery q1 = validateQuery q2"
proof -
  from assms(1) have n: "normalizeQuery q1 = normalizeQuery q2"
    by (simp add: normalizeQuery_def)
  show ?thesis
    by (simp only: validateQuery_def n b)
qed

text \<open>The first word of a non-empty normalized query is not empty: \<open>trim\<close> leaves no
  leading white space, and \<open>toUpperCase\<close> makes no space.\<close>

lemma upper_char_space: "upper_char c = CHR '' '' \<Longrightarrow> c = CHR '' ''"
proof (rule ccontr)
  assume u: "upper_char c = CHR '' ''" and n: "c \<noteq> CHR '' ''"
  let ?n = "of_char c :: nat"
  from u n have r: "97 \<le> ?n \<and> ?n \<le> 122" and e: "char_of (?n - 32) = CHR '' ''"
    by (auto simp: upper_char_def Let_def split: if_splits)
  from e have "of_char (char_of (?n - 32) :: char) = (of_char (CHR '' '') :: nat)"
    by simp
  then have m: "(?n - 32) mod 256 = 32"
    by (simp add: of_char_of)
  from r have "?n - 32 < 256" by arith
  then have "(?n - 32) mod 256 = ?n - 32" by simp
  with m r show False
    by arith
qed

lemma trim_prefix:
  "dropWhile is_space s = trim s @ rev (takeWhile is_space (rev (dropWhile is_space s)))"
  unfolding trim_def
  by (metis rev_append rev_rev_ident takeWhile_dropWhile_id)

lemma trim_hd_not_space:
  assumes ne: "trim s \<noteq> []"
  shows "\<not> is_space (hd (trim s))"
proof -
  let ?t = "dropWhile is_space s"
  from ne trim_prefix [of s] have h: "hd ?t = hd (trim s)"
    by (metis hd_append2)
  from ne trim_prefix [of s] have t: "?t \<noteq> []"
    by (metis append_is_Nil_conv)
  from t have "\<not> is_space (hd ?t)"
    by (rule hd_dropWhile)
  with h show ?thesis by simp
qed

lemma first_split_normalizeQuery:
  assumes "normalizeQuery q \<noteq> []"
  shows "first_split (normalizeQuery q) \<noteq> []"
proof -
  let ?t = "trim (collapse_ws (removeComments q))"
  from assms have ne: "?t \<noteq> []"
    by (simp add: normalizeQuery_def toUpperCase_def)
  then obtain c cs where t: "?t = c # cs"
    by (cases ?t) auto
  from trim_hd_not_space [OF ne] t have "\<not> is_space c"
    by simp
  then have "c \<noteq> CHR '' ''"
    by (auto simp: is_space_def)
  then have "upper_char c \<noteq> CHR '' ''"
    using upper_char_space by blast
  with t show ?thesis
    by (simp add: normalizeQuery_def toUpperCase_def first_split_def)
qed

lemma truthy_Some: "truthy x \<Longrightarrow> \<exists>k. x = Some k \<and> k \<noteq> []"
  by (cases x) (auto simp: truthy_def)

text \<open>
  C10. For every input string the verdict of \<open>validateQuery\<close> is well formed: when
  \<open>valid\<close> is false, a reason and a query type are present and neither is empty; when
  \<open>valid\<close> is true, there is no reason and the query type is set.
\<close>

theorem validateQuery_verdict_wellformed:
  "(\<not> valid (validateQuery q) \<longrightarrow>
      (\<exists>r t. reason (validateQuery q) = Some r \<and> r \<noteq> [] \<and>
             queryType (validateQuery q) = Some t \<and> t \<noteq> []))
   \<and> (valid (validateQuery q) \<longrightarrow>
      reason (validateQuery q) = None \<and> (\<exists>t. queryType (validateQuery q) = Some t \<and> t \<noteq> []))"
proof -
  let ?n = "normalizeQuery q"
  consider (empty) "?n = []"
    | (start) "?n \<noteq> []" "\<not> startsWithAllowed ?n"
    | (blocked) "?n \<noteq> []" "startsWithAllowed ?n" "truthy (findBlockedKeyword ?n)"
    | (bypass) "?n \<noteq> []" "startsWithAllowed ?n" "\<not> truthy (findBlockedKeyword ?n)"
        "truthy (findBypassPattern q)"
    | (ok) "?n \<noteq> []" "startsWithAllowed ?n" "\<not> truthy (findBlockedKeyword ?n)"
        "\<not> truthy (findBypassPattern q)"
    by blast
  then show ?thesis
  proof cases
    case empty
    then show ?thesis by (simp add: validateQuery_def)
  next
    case start
    with first_split_normalizeQuery [of q] show ?thesis
      by (simp add: validateQuery_def Let_def)
  next
    case blocked
    from truthy_Some [OF blocked(3)] obtain k where "findBlockedKeyword ?n = Some k" "k \<noteq> []"
      by blast
    with blocked show ?thesis
      by (simp add: validateQuery_def Let_def)
  next
    case bypass
    then show ?thesis by (simp add: validateQuery_def Let_def)
  next
    case ok
    then show ?thesis by (simp add: validateQuery_def Let_def)
  qed
qed

theorem validateQuery_verdict_wellformed_witness:
  "(\<not> valid (validateQuery ''DELETE FROM Users'') \<and>
      (\<exists>r t. reason (validateQuery ''DELETE FROM Users'') = Some r \<and> r \<noteq> [] \<and>
             queryType (validateQuery ''DELETE FROM Users'') = Some t \<and> t \<noteq> []))
   \<and> (valid (validateQuery ''SELECT * FROM Users WHERE Id = @id'') \<and>
      reason (validateQuery ''SELECT * FROM Users WHERE Id = @id'') = None \<and>
      (\<exists>t. queryType (validateQuery ''SELECT * FROM Users WHERE Id = @id'') = Some t \<and> t \<noteq> []))"
proof -
  have a: "\<not> valid (validateQuery ''DELETE FROM Users'')"
    by code_simp
  have b: "valid (validateQuery ''SELECT * FROM Users WHERE Id = @id'')"
    by code_simp
  from a b validateQuery_verdict_wellformed [of "''DELETE FROM Users''"]
    validateQuery_verdict_wellformed [of "''SELECT * FROM Users WHERE Id = @id''"]
  show ?thesis
    by blast
qed

section \<open>Properties of the binder and the pipeline\<close>

text \<open>
  C3. Under the read-only policy \<open>executeWrite\<close> fails with \<open>ReadOnlyViolationError\<close> for
  every statement, parameter map, driver and clock, and leaves the trace as it was: no
  validator call, no pool acquired, no parameter bound, no statement dispatched, nothing
  logged.
\<close>

theorem executeWrite_readonly_rejects:
  "READONLY cfg \<Longrightarrow>
   executeWrite cfg d clk query params tr =
     (Inl (ReadOnlyViolationError ''Write operations are not allowed in READONLY mode''), tr)"
  by (simp add: executeWrite_def)

theorem executeWrite_readonly_rejects_witness:
  "READONLY \<lparr>READONLY = True\<rparr> \<and>
   executeWrite \<lparr>READONLY = True\<rparr> (stub_driver []) (0, 5)
      ''DELETE FROM Users WHERE Id = @id'' [(''id'', num 7)] [] =
     (Inl (ReadOnlyViolationError ''Write operations are not allowed in READONLY mode''), [])"
  using executeWrite_readonly_rejects
    [of "\<lparr>READONLY = True\<rparr>" "stub_driver []" "(0, 5)"
        "''DELETE FROM Users WHERE Id = @id''" "[(''id'', num 7)]" "[]"]
  by simp

text \<open>
  C8, as the claim states it, fails in its last part: a value outside the union
  \<open>string | number | boolean | null\<close> raises nothing; \<open>getSqlType\<close> returns the text
  type for it.
\<close>

theorem getSqlType_outside_union_counterexample:
  "getSqlType JUndefined = NVarChar \<and> getSqlType JObject = getSqlType (JString ''x'')"
  by simp

text \<open>
  C8, amended: \<open>getSqlType\<close> maps null and strings to \<open>NVarChar\<close>, integer-valued
  numbers to \<open>BigInt\<close>, all other numbers (fractions, \<open>NaN\<close>, the infinities) to
  \<open>Float\<close>, booleans to \<open>Bit\<close>, and every other value to \<open>NVarChar\<close>.
\<close>

theorem getSqlType_contract:
  "getSqlType JNull = NVarChar \<and> getSqlType (JString s) = NVarChar
   \<and> getSqlType (JNumber n) = (if Number_isInteger n then BigInt else Float)
   \<and> getSqlType (JBoolean b) = Bit
   \<and> getSqlType JUndefined = NVarChar \<and> getSqlType JObject = NVarChar"
  by simp







section \<open>Properties of the statement builders\<close>

lemma js_includes_iff: "js_includes s v \<longleftrightarrow> (\<exists>p r. s = p @ v @ r)"
proof (induction s)
  case Nil
  then show ?case by auto
next
  case (Cons c cs)
  have "startsWith (c # cs) v \<longleftrightarrow> (\<exists>r. c # cs = v @ r)"
    unfolding startsWith_def
    by (metis append_eq_conv_conj append_take_drop_id)
  moreover have "(\<exists>p r. c # cs = p @ v @ r) \<longleftrightarrow> (\<exists>r. c # cs = v @ r) \<or> (\<exists>p r. cs = p @ v @ r)"
  proof
    assume "\<exists>p r. c # cs = p @ v @ r"
    then obtain p r where e: "c # cs = p @ v @ r" by blast
    show "(\<exists>r. c # cs = v @ r) \<or> (\<exists>p r. cs = p @ v @ r)"
    proof (cases p)
      case Nil
      with e show ?thesis by auto
    next
      case (Cons a p')
      with e have "cs = p' @ v @ r" by simp
      then show ?thesis by blast
    qed
  next
    assume "(\<exists>r. c # cs = v @ r) \<or> (\<exists>p r. cs = p @ v @ r)"
    then show "\<exists>p r. c # cs = p @ v @ r"
    proof
      assume "\<exists>r. c # cs = v @ r"
      then obtain r where "c # cs = [] @ v @ r" by auto
      then show ?thesis by blast
    next
      assume "\<exists>p r. cs = p @ v @ r"
      then obtain p r where "c # cs = (c # p) @ v @ r" by auto
      then show ?thesis by blast
    qed
  qed
  ultimately show ?case using Cons.IH by simp
qed

lemma js_includes_set: "js_includes s v \<Longrightarrow> set v \<subseteq> set s"
  by (auto simp: js_includes_iff)

lemma set_join: "set (join sep xs) \<subseteq> set sep \<union> (\<Union>x \<in> set xs. set x)"
  by (induction sep xs rule: join.induct) auto

lemma set_template:
  "set (p1 @ schema @ p2 @ table @ p3 @ join s1 cols @ p4
          @ join s2 (map (\<lambda>col. a0 # col) cols) @ p5)
     \<subseteq> set (p1 @ p2 @ p3 @ s1 @ p4 @ s2 @ [a0] @ p5) \<union> set schema \<union> set table
         \<union> (\<Union>k \<in> set cols. set k)"
proof -
  have a: "set (join s1 cols) \<subseteq> set s1 \<union> (\<Union>k \<in> set cols. set k)"
    by (rule set_join)
  have "set (join s2 (map (\<lambda>col. a0 # col) cols))
          \<subseteq> set s2 \<union> (\<Union>x \<in> set (map (\<lambda>col. a0 # col) cols). set x)"
    by (rule set_join)
  moreover have "(\<Union>x \<in> set (map (\<lambda>col. a0 # col) cols). set x)
          \<subseteq> {a0} \<union> (\<Union>k \<in> set cols. set k)"
    by auto
  ultimately have b: "set (join s2 (map (\<lambda>col. a0 # col) cols))
          \<subseteq> set s2 \<union> {a0} \<union> (\<Union>k \<in> set cols. set k)"
    by blast
  from a b show ?thesis
    by auto
qed

lemma set_insert_query:
  "set (fst (buildInsertQuery schema table data))
     \<subseteq> set insert_fixed_text \<union> set schema \<union> set table \<union> (\<Union>k \<in> set (map fst data). set k)"
  unfolding buildInsertQuery_def insert_fixed_text_def Let_def fst_conv
  by (rule set_template)

text \<open>
  C9, as the claim states it, fails: the value \<open>;\<close> holds an SQL metacharacter and occurs
  in the text of every INSERT statement the builder makes.
\<close>

theorem buildInsertQuery_semicolon_counterexample:
  "js_includes (fst (buildInsertQuery ''dbo'' ''users'' [(''name'', JString '';'')])) '';''"
  by code_simp

text \<open>
  C9, amended: the builder returns the data as the parameter map; its text depends on
  the schema, the table and the column names only; and a value that holds a character
  occurring neither in the schema, the table or a column name nor in the fixed text of
  the statement is not a substring of the text.
\<close>

theorem buildInsertQuery_values_not_interpolated:
  "snd (buildInsertQuery schema table data) = data
   \<and> (map fst data' = map fst data \<longrightarrow>
        fst (buildInsertQuery schema table data') = fst (buildInsertQuery schema table data))
   \<and> (c \<in> set v \<and> c \<notin> set insert_fixed_text \<and> c \<notin> set schema \<and> c \<notin> set table
        \<and> (\<forall>k \<in> set (map fst data). c \<notin> set k)
      \<longrightarrow> \<not> js_includes (fst (buildInsertQuery schema table data)) v)"
proof (intro conjI impI)
  show "snd (buildInsertQuery schema table data) = data"
    by (simp add: buildInsertQuery_def Let_def)
next
  assume "map fst data' = map fst data"
  then show "fst (buildInsertQuery schema table data') = fst (buildInsertQuery schema table data)"
    by (simp add: buildInsertQuery_def Let_def)
next
  assume h: "c \<in> set v \<and> c \<notin> set insert_fixed_text \<and> c \<notin> set schema \<and> c \<notin> set table
        \<and> (\<forall>k \<in> set (map fst data). c \<notin> set k)"
  show "\<not> js_includes (fst (buildInsertQuery schema table data)) v"
  proof
    assume "js_includes (fst (buildInsertQuery schema table data)) v"
    then have "set v \<subseteq> set (fst (buildInsertQuery schema table data))"
      by (rule js_includes_set)
    with h have "c \<in> set (fst (buildInsertQuery schema table data))"
      by blast
    with set_insert_query [of schema table data] h show False
      by blast
  qed
qed

theorem buildInsertQuery_values_not_interpolated_witness:
  "snd (buildInsertQuery ''dbo'' ''users'' [(''name'', JString injection_value)])
     = [(''name'', JString injection_value)]
   \<and> (map fst [(''name'', JString ''Ann'')] = map fst [(''name'', JString injection_value)]
      \<and> fst (buildInsertQuery ''dbo'' ''users'' [(''name'', JString ''Ann'')])
          = fst (buildInsertQuery ''dbo'' ''users'' [(''name'', JString injection_value)]))
   \<and> (CHR 0x27 \<in> set injection_value \<and> CHR 0x27 \<notin> set insert_fixed_text
      \<and> CHR 0x27 \<notin> set ''dbo'' \<and> CHR 0x27 \<notin> set ''users'' \<and> CHR 0x27 \<notin> set ''name''
      \<and> \<not> js_includes (fst (buildInsertQuery ''dbo'' ''users''
                              [(''name'', JString injection_value)])) injection_value)"
proof -
  have n: "CHR 0x27 \<notin> set ''name''"
    by simp
  have h: "CHR 0x27 \<in> set injection_value \<and> CHR 0x27 \<notin> set insert_fixed_text
      \<and> CHR 0x27 \<notin> set ''dbo'' \<and> CHR 0x27 \<notin> set ''users''
      \<and> (\<forall>k \<in> set (map fst [(''name'', JString injection_value)]). CHR 0x27 \<notin> set k)"
    by (simp add: injection_value_def insert_fixed_text_def)
  have k: "map fst [(''name'', JString ''Ann'')] = map fst [(''name'', JString injection_value)]"
    by simp
  from h k n
    buildInsertQuery_values_not_interpolated
      [of "''dbo''" "''users''" "[(''name'', JString injection_value)]"
          "[(''name'', JString ''Ann'')]" "CHR 0x27" injection_value]
  show ?thesis
    by blast
qed

section \<open>Properties of error handling\<close>







declare redact_password.simps(2) [simp del]
























end
